theory Spec2Isabelle
  imports Main
begin

section \<open>The syntax tree and the types the checker reads\<close>

text \<open>
  The checker of \<^verbatim>\<open>BadScaledPointerArithmeticChecker.cpp\<close> is a callback on binary
  operators. It reads the operator kind, the static types of both operands, the symbolic
  value of one operand, and the size of a pointee type; it may hand one report to the
  bug reporter. Everything it reads belongs to the analyzer core, so each entity is
  modelled by the attributes the checker queries.
\<close>

text \<open>The kinds of binary operators (\<^verbatim>\<open>BinaryOperatorKind\<close>).\<close>

datatype BinaryOperatorKind =
    BO_PtrMemD | BO_PtrMemI
  | BO_Mul | BO_Div | BO_Rem
  | BO_Add | BO_Sub
  | BO_Shl | BO_Shr
  | BO_Cmp
  | BO_LT | BO_GT | BO_LE | BO_GE
  | BO_EQ | BO_NE
  | BO_And | BO_Xor | BO_Or
  | BO_LAnd | BO_LOr
  | BO_Assign | BO_MulAssign | BO_DivAssign | BO_RemAssign
  | BO_AddAssign | BO_SubAssign
  | BO_ShlAssign | BO_ShrAssign
  | BO_AndAssign | BO_XorAssign | BO_OrAssign
  | BO_Comma

text \<open>
  The class of a (canonical) type, as far as the checker distinguishes it: a C pointer,
  an Objective-C object pointer, an integer type, anything else. A type has one class,
  so no type is both a pointer and an integer.
\<close>

datatype TypeClass = PointerClass | ObjCObjectPointerClass | IntegerClass | OtherClass

text \<open>
  A type with the attributes queried by the checker. The pointee is a \<^verbatim>\<open>QualType\<close>,
  which may be null: \<open>None\<close>.
\<close>

datatype Type = MkType
  (typeName: string)
  (typeClass: TypeClass)
  (getPointeeType: "Type option")
  (isIncompleteType: bool)
  (isDependentType: bool)
  (isaDependentSizedArrayType: bool)
  (isConstantSizeType: bool)

type_synonym QualType = "Type option"

definition isPointerType :: "Type \<Rightarrow> bool" where
  "isPointerType T = (typeClass T = PointerClass)"

definition isAnyPointerType :: "Type \<Rightarrow> bool" where
  "isAnyPointerType T = (typeClass T = PointerClass \<or> typeClass T = ObjCObjectPointerClass)"

definition isIntegerType :: "Type \<Rightarrow> bool" where
  "isIntegerType T = (typeClass T = IntegerClass)"

text \<open>An expression: its identity in the syntax tree and its static type (never null).\<close>

record Expr =
  exprId :: nat
  getType :: Type

record BinaryOperator =
  getOpcode :: BinaryOperatorKind
  getLHS :: Expr
  getRHS :: Expr

text \<open>
  Modelled from the spec: \<^verbatim>\<open>BinaryOperator::isAdditiveOp\<close> is declared outside the
  checker's file; the additive operators are \<open>+\<close> and \<open>-\<close>.
\<close>

definition isAdditiveOp :: "BinaryOperator \<Rightarrow> bool" where
  "isAdditiveOp BO = (getOpcode BO = BO_Add \<or> getOpcode BO = BO_Sub)"

section \<open>Symbolic values, path state and the checker context\<close>

text \<open>
  A symbolic value carries the provenance flag \<^verbatim>\<open>isFromSizeof\<close>; the rest of the value
  is opaque to the checker.
\<close>

record SVal =
  svalData :: nat
  isFromSizeof :: bool

text \<open>The path state binds expressions to symbolic values.\<close>

record ProgramState =
  Env :: "Expr \<Rightarrow> SVal"

type_synonym ExplodedNode = nat

text \<open>
  A bug type is built from two strings, in the order of the constructor's arguments in
  the checker.
\<close>

datatype BugType = BugType string string

record PathSensitiveBugReport =
  bugType :: BugType
  description :: string
  errorNode :: ExplodedNode

text \<open>
  The layout query of the AST context. Its result is a signed 64-bit quantity that the
  checker only compares with 1, so it is an \<open>int\<close> here. The query is valid only for
  complete, non-dependent types of constant size; \<open>None\<close> is a query outside the domain
  of the AST context at hand, which ends the analysis.
\<close>

record ASTContext =
  getTypeSizeInChars :: "Type \<Rightarrow> int option"

text \<open>
  The checker context: the AST context, the current path state, the engine's answer to
  a request for a non-fatal error node (\<open>None\<close> when it declines), and the reports handed
  to the bug reporter so far.
\<close>

record CheckerContext =
  getASTContext :: ASTContext
  getState :: ProgramState
  generateNonFatalErrorNode :: "ProgramState \<Rightarrow> ExplodedNode option"
  emitted :: "PathSensitiveBugReport list"

definition getSVal :: "CheckerContext \<Rightarrow> Expr \<Rightarrow> SVal" where
  "getSVal C E = Env (getState C) E"

definition emitReport :: "PathSensitiveBugReport \<Rightarrow> CheckerContext \<Rightarrow> CheckerContext" where
  "emitReport R C = C\<lparr>emitted := emitted C @ [R]\<rparr>"

section \<open>The checker\<close>

definition BT :: BugType where
  "BT = BugType ''Badly scaled pointer arithmetic'' ''Suspicious operation''"

text \<open>
  Modelled from the spec: \<^verbatim>\<open>llvm::formatv\<close> is declared outside the checker's file; with
  one argument it puts the argument in the place of each \<^verbatim>\<open>{0}\<close> of the format string.
\<close>

function formatv :: "string \<Rightarrow> string \<Rightarrow> string" where
  "formatv [] a = []"
| "formatv (c # cs) a =
     (if take 3 (c # cs) = ''{0}'' then a @ formatv (drop 2 cs) a
      else c # formatv cs a)"
  by pat_completeness auto
termination
  by (relation "measure (\<lambda>(fmt, a). length fmt)") auto

text \<open>\<^verbatim>\<open>isCharPtr\<close>: is the type a pointer to a type of size one?\<close>

definition isCharPtr :: "QualType \<Rightarrow> CheckerContext \<Rightarrow> bool option" where
  "isCharPtr T C =
     (case T of
        None \<Rightarrow> Some False
      | Some Ty \<Rightarrow>
          if \<not> isAnyPointerType Ty then Some False
          else
            (case getPointeeType Ty of
               None \<Rightarrow> Some False
             | Some PT \<Rightarrow>
                 if isIncompleteType PT \<or> isDependentType PT \<or>
                    isaDependentSizedArrayType PT \<or> \<not> isConstantSizeType PT
                 then Some False
                 else map_option (\<lambda>q. q = 1) (getTypeSizeInChars (getASTContext C) PT)))"

text \<open>\<^verbatim>\<open>reportBug\<close>: ask the engine for an error node; emit one report if it gives one.\<close>

definition reportBug :: "bool \<Rightarrow> CheckerContext \<Rightarrow> CheckerContext" where
  "reportBug IsLeft C =
     (case generateNonFatalErrorNode C (getState C) of
        None \<Rightarrow> C
      | Some N \<Rightarrow>
          let BugMessage =
                formatv ''In pointer arithmetic {0} argument is calculated from a sizeof or offsetof expression''
                  (if IsLeft then ''left'' else ''right'')
          in emitReport \<lparr>bugType = BT, description = BugMessage, errorNode = N\<rparr> C)"

text \<open>
  \<^verbatim>\<open>checkPreStmt\<close>: the callback. The result is the context after the call, or \<open>None\<close>
  when the analysis ended in an invalid layout query.
\<close>

definition checkPreStmt :: "BinaryOperator \<Rightarrow> CheckerContext \<Rightarrow> CheckerContext option" where
  "checkPreStmt BO C =
     (let OpKind = getOpcode BO in
      if \<not> isAdditiveOp BO \<and> OpKind \<noteq> BO_AddAssign \<and> OpKind \<noteq> BO_SubAssign then Some C
      else
        let Lhs = getLHS BO; Rhs = getRHS BO in
        if isPointerType (getType Lhs) \<and> isIntegerType (getType Rhs) then
          (let RHSVal = getSVal C Rhs in
           if isFromSizeof RHSVal then
             (case isCharPtr (Some (getType Lhs)) C of
                None \<Rightarrow> None
              | Some b \<Rightarrow> if \<not> b then Some (reportBug False C) else Some C)
           else Some C)
        else if isIntegerType (getType Lhs) \<and> isPointerType (getType Rhs) then
          (let LHSVal = getSVal C Lhs in
           if isFromSizeof LHSVal then
             (case isCharPtr (Some (getType Rhs)) C of
                None \<Rightarrow> None
              | Some b \<Rightarrow> if \<not> b then Some (reportBug True C) else Some C)
           else Some C)
        else Some C)"

section \<open>Sample programs\<close>

text \<open>
  Types, expressions, a layout and path states of small C programs, on which the
  properties below are run: \<^verbatim>\<open>T *p; ... p + sizeof(int)\<close> for several pointee types
  \<^verbatim>\<open>T\<close>. The layout gives \<^verbatim>\<open>char\<close> size 1, \<^verbatim>\<open>int\<close> size 4, the empty structure
  \<^verbatim>\<open>struct E {}\<close> size 0 (as GNU C does) and has no size for \<^verbatim>\<open>void\<close>, which is
  incomplete.
\<close>

definition int_ty :: Type where
  "int_ty = MkType ''int'' IntegerClass None False False False True"

definition char_ty :: Type where
  "char_ty = MkType ''char'' IntegerClass None False False False True"

definition size_t_ty :: Type where
  "size_t_ty = MkType ''unsigned long'' IntegerClass None False False False True"

definition void_ty :: Type where
  "void_ty = MkType ''void'' OtherClass None True False False False"

definition empty_ty :: Type where
  "empty_ty = MkType ''struct E'' OtherClass None False False False True"

definition pointer_to :: "Type \<Rightarrow> Type" where
  "pointer_to T = MkType (typeName T @ '' *'') PointerClass (Some T) False False False True"

definition layout :: ASTContext where
  "layout = \<lparr>getTypeSizeInChars = (\<lambda>T.
      if isIncompleteType T \<or> isDependentType T \<or> \<not> isConstantSizeType T then None
      else if typeName T = ''char'' then Some 1
      else if typeName T = ''int'' then Some 4
      else if typeName T = ''struct E'' then Some 0
      else Some 8)\<rparr>"

text \<open>The operands: \<^verbatim>\<open>p\<close> of type \<^verbatim>\<open>T *\<close> and \<^verbatim>\<open>sizeof(int)\<close>.\<close>

definition ptr_expr :: "Type \<Rightarrow> Expr" where
  "ptr_expr T = \<lparr>exprId = 1, getType = pointer_to T\<rparr>"

definition size_expr :: Expr where
  "size_expr = \<lparr>exprId = 2, getType = size_t_ty\<rparr>"

text \<open>
  A path state in which the value of \<^verbatim>\<open>sizeof(int)\<close> carries the provenance flag
  (\<open>tagged\<close>) or no value does.
\<close>

definition path_state :: "bool \<Rightarrow> ProgramState" where
  "path_state tagged =
     \<lparr>Env = (\<lambda>E. \<lparr>svalData = exprId E, isFromSizeof = (tagged \<and> exprId E = 2)\<rparr>)\<rparr>"

text \<open>A checker context with that state, an engine that always answers \<open>N\<close>, and no report yet.\<close>

definition ctx :: "bool \<Rightarrow> ExplodedNode option \<Rightarrow> CheckerContext" where
  "ctx tagged N =
     \<lparr>getASTContext = layout, getState = path_state tagged,
      generateNonFatalErrorNode = (\<lambda>_. N), emitted = []\<rparr>"

text \<open>The operations \<^verbatim>\<open>p + sizeof(int)\<close>, \<^verbatim>\<open>sizeof(int) + p\<close> and \<^verbatim>\<open>p -= sizeof(int)\<close>.\<close>

definition ptr_plus_size :: "Type \<Rightarrow> BinaryOperator" where
  "ptr_plus_size T = \<lparr>getOpcode = BO_Add, getLHS = ptr_expr T, getRHS = size_expr\<rparr>"

definition size_plus_ptr :: "Type \<Rightarrow> BinaryOperator" where
  "size_plus_ptr T = \<lparr>getOpcode = BO_Add, getLHS = size_expr, getRHS = ptr_expr T\<rparr>"

definition ptr_minus_assign_size :: "Type \<Rightarrow> BinaryOperator" where
  "ptr_minus_assign_size T =
     \<lparr>getOpcode = BO_SubAssign, getLHS = ptr_expr T, getRHS = size_expr\<rparr>"

text \<open>
  The context \<open>C\<close> with the provenance flag set on the value bound to the expression
  \<open>E\<close>, and nothing else changed.
\<close>

definition tag_value :: "Expr \<Rightarrow> CheckerContext \<Rightarrow> CheckerContext" where
  "tag_value E C =
     C\<lparr>getState := (getState C)\<lparr>Env := (Env (getState C))
        (E := (Env (getState C) E)\<lparr>isFromSizeof := True\<rparr>)\<rparr>\<rparr>"

text \<open>
  A context whose engine gives node 7 in the states where the value of \<^verbatim>\<open>p\<close> is not
  tagged and declines in the others (it has, say, explored those before).
\<close>

definition visited_ctx :: CheckerContext where
  "visited_ctx =
     \<lparr>getASTContext = layout, getState = path_state True,
      generateNonFatalErrorNode =
        (\<lambda>s. if isFromSizeof (Env s (ptr_expr int_ty)) then None else Some 7),
      emitted = []\<rparr>"

section \<open>Auxiliary facts\<close>

lemmas sample_defs =
  int_ty_def char_ty_def size_t_ty_def void_ty_def empty_ty_def pointer_to_def
  layout_def ptr_expr_def size_expr_def path_state_def ctx_def
  ptr_plus_size_def size_plus_ptr_def ptr_minus_assign_size_def

lemmas query_defs = isPointerType_def isAnyPointerType_def isIntegerType_def getSVal_def

lemmas checker_defs =
  checkPreStmt_def isCharPtr_def reportBug_def emitReport_def isAdditiveOp_def BT_def query_defs

text \<open>The two messages that \<^verbatim>\<open>formatv\<close> builds from the checker's format string.\<close>

lemma formatv_left:
  "formatv ''In pointer arithmetic {0} argument is calculated from a sizeof or offsetof expression'' ''left''
   = ''In pointer arithmetic left argument is calculated from a sizeof or offsetof expression''"
  by simp

lemma formatv_right:
  "formatv ''In pointer arithmetic {0} argument is calculated from a sizeof or offsetof expression'' ''right''
   = ''In pointer arithmetic right argument is calculated from a sizeof or offsetof expression''"
  by simp

lemma pointer_not_integer: "isPointerType T \<Longrightarrow> \<not> isIntegerType T"
  by (simp add: isPointerType_def isIntegerType_def)

text \<open>The report step, by the engine's answer.\<close>

lemma reportBug_Some:
  assumes "generateNonFatalErrorNode C (getState C) = Some N"
  shows "reportBug IsLeft C =
    emitReport \<lparr>bugType = BT,
      description = ''In pointer arithmetic '' @ (if IsLeft then ''left'' else ''right'') @
        '' argument is calculated from a sizeof or offsetof expression'',
      errorNode = N\<rparr> C"
  using assms by (simp add: reportBug_def formatv_left formatv_right del: formatv.simps)

lemma reportBug_None:
  assumes "generateNonFatalErrorNode C (getState C) = None"
  shows "reportBug IsLeft C = C"
  using assms by (simp add: reportBug_def)

lemma reportBug_eq:
  "reportBug IsLeft C =
     (case generateNonFatalErrorNode C (getState C) of
        None \<Rightarrow> C
      | Some N \<Rightarrow>
          emitReport \<lparr>bugType = BT,
            description = ''In pointer arithmetic '' @ (if IsLeft then ''left'' else ''right'') @
              '' argument is calculated from a sizeof or offsetof expression'',
            errorNode = N\<rparr> C)"
  by (simp add: reportBug_None reportBug_Some split: option.splits)

lemma emitted_reportBug:
  "\<exists>rs. emitted (reportBug IsLeft C) = emitted C @ rs \<and> length rs \<le> 1 \<and>
     (\<forall>r \<in> set rs. bugType r = BT \<and>
        description r = ''In pointer arithmetic '' @ (if IsLeft then ''left'' else ''right'') @
          '' argument is calculated from a sizeof or offsetof expression'')"
proof (cases "generateNonFatalErrorNode C (getState C)")
  case None
  then show ?thesis by (simp add: reportBug_None)
next
  case (Some N)
  then show ?thesis by (simp add: reportBug_Some emitReport_def)
qed

text \<open>The size-one test on a pointer whose pointee has a size, and on one whose pointee fails a guard.\<close>

lemma isCharPtr_size:
  assumes "isPointerType Ty" "getPointeeType Ty = Some PT"
    and "getTypeSizeInChars (getASTContext C) PT = Some n"
  shows "isCharPtr (Some Ty) C =
    Some (\<not> isIncompleteType PT \<and> \<not> isDependentType PT \<and> \<not> isaDependentSizedArrayType PT \<and>
          isConstantSizeType PT \<and> n = 1)"
  using assms by (auto simp: isCharPtr_def isPointerType_def isAnyPointerType_def)

lemma isCharPtr_unknown:
  assumes "getPointeeType Ty = None \<or>
     (\<exists>PT. getPointeeType Ty = Some PT \<and>
        (isIncompleteType PT \<or> isDependentType PT \<or> isaDependentSizedArrayType PT \<or>
         \<not> isConstantSizeType PT))"
  shows "isCharPtr (Some Ty) C = Some False"
  using assms by (auto simp: isCharPtr_def split: option.splits)

lemma isCharPtr_state_update:
  "isCharPtr T (C\<lparr>getState := s\<rparr>) = isCharPtr T C"
  by (simp add: isCharPtr_def split: option.splits)

text \<open>
  The callback on a candidate: an additive operation with the integer operand \<open>I\<close> on the
  left (\<open>IsLeft\<close>) or on the right of the pointer operand \<open>P\<close>, the value of \<open>I\<close> tagged.
\<close>

lemma checkPreStmt_candidate:
  assumes "getOpcode BO \<in> {BO_Add, BO_Sub, BO_AddAssign, BO_SubAssign}"
    and "getLHS BO = (if IsLeft then I else P)" "getRHS BO = (if IsLeft then P else I)"
    and "isPointerType (getType P)" "isIntegerType (getType I)"
    and "isFromSizeof (getSVal C I)"
  shows "checkPreStmt BO C =
    (case isCharPtr (Some (getType P)) C of
       None \<Rightarrow> None
     | Some b \<Rightarrow> if b then Some C else Some (reportBug IsLeft C))"
  using assms
  by (auto simp: checkPreStmt_def isAdditiveOp_def isPointerType_def isIntegerType_def Let_def
      split: option.splits)

text \<open>Every way in which the callback returns.\<close>

lemma checkPreStmt_cases:
  assumes "checkPreStmt BO C = Some C'"
  shows "C' = C \<or>
    (isPointerType (getType (getLHS BO)) \<and> isIntegerType (getType (getRHS BO)) \<and>
       C' = reportBug False C) \<or>
    (isIntegerType (getType (getLHS BO)) \<and> isPointerType (getType (getRHS BO)) \<and>
       C' = reportBug True C)"
  using assms
  by (auto simp: checkPreStmt_def Let_def split: if_splits option.splits)

lemma reportBug_state_update:
  assumes "(generateNonFatalErrorNode C s = None) = (generateNonFatalErrorNode C (getState C) = None)"
  shows "map (\<lambda>r. (bugType r, description r)) (emitted (reportBug IsLeft (C\<lparr>getState := s\<rparr>))) =
         map (\<lambda>r. (bugType r, description r)) (emitted (reportBug IsLeft C))"
  using assms
  by (cases "generateNonFatalErrorNode C s"; cases "generateNonFatalErrorNode C (getState C)")
     (simp_all add: reportBug_def emitReport_def del: formatv.simps)

section \<open>Properties\<close>

text \<open>
  In the theorems on candidates, \<open>I\<close> is the integer-typed operand and \<open>P\<close> the
  pointer-typed one; \<open>IsLeft\<close> says that \<open>I\<close> is the left operand. A finding is a report
  added to \<open>emitted\<close>.
\<close>

subsection \<open>C1: a tagged integer added to a pointer to a type larger than one unit\<close>

text \<open>
  C1, as stated, promises a finding for every additive operation with a pointer operand
  and a tagged integer operand, the pointee being larger than one unit. It fails where the
  engine gives no error node: for \<^verbatim>\<open>int *p; p + sizeof(int)\<close>, with \<^verbatim>\<open>int\<close> of size 4
  and an engine that declines, the callback returns with no report emitted.
\<close>

theorem scaled_size_engine_declines:
  "getOpcode (ptr_plus_size int_ty) = BO_Add \<and>
   isPointerType (getType (getLHS (ptr_plus_size int_ty))) \<and>
   isIntegerType (getType (getRHS (ptr_plus_size int_ty))) \<and>
   isFromSizeof (getSVal (ctx True None) (getRHS (ptr_plus_size int_ty))) \<and>
   getPointeeType (getType (getLHS (ptr_plus_size int_ty))) = Some int_ty \<and>
   \<not> isIncompleteType int_ty \<and> \<not> isDependentType int_ty \<and>
   \<not> isaDependentSizedArrayType int_ty \<and> isConstantSizeType int_ty \<and>
   getTypeSizeInChars (getASTContext (ctx True None)) int_ty = Some 4 \<and>
   checkPreStmt (ptr_plus_size int_ty) (ctx True None) = Some (ctx True None) \<and>
   emitted (ctx True None) = []"
  by (simp add: sample_defs checker_defs)

text \<open>
  C1 (amended). For an additive or compound additive operation with a pointer-typed
  operand on one side and an integer-typed operand on the other, the value of the integer
  operand tagged as derived from sizeof/offsetof and the pointee of size \<open>n > 1\<close>: the
  callback reaches the report step, and when the engine gives an error node \<open>N\<close> it
  emits exactly one report, attached to \<open>N\<close>, whose message names the side of the integer
  operand; when the engine declines, the context is unchanged.
\<close>

theorem checkPreStmt_reports_scaled_size:
  assumes "getOpcode BO \<in> {BO_Add, BO_Sub, BO_AddAssign, BO_SubAssign}"
    and "getLHS BO = (if IsLeft then I else P)" "getRHS BO = (if IsLeft then P else I)"
    and "isPointerType (getType P)" "isIntegerType (getType I)"
    and "isFromSizeof (getSVal C I)"
    and "getPointeeType (getType P) = Some PT"
    and "getTypeSizeInChars (getASTContext C) PT = Some n" "1 < n"
  shows "checkPreStmt BO C =
    Some (case generateNonFatalErrorNode C (getState C) of
            None \<Rightarrow> C
          | Some N \<Rightarrow>
              emitReport \<lparr>bugType = BT,
                description = ''In pointer arithmetic '' @ (if IsLeft then ''left'' else ''right'') @
                  '' argument is calculated from a sizeof or offsetof expression'',
                errorNode = N\<rparr> C)"
proof -
  have "isCharPtr (Some (getType P)) C = Some False"
    using assms(4,7,8,9) by (simp add: isCharPtr_size)
  then have "checkPreStmt BO C = Some (reportBug IsLeft C)"
    using assms(1-6) by (simp add: checkPreStmt_candidate)
  then show ?thesis
    by (simp only: reportBug_eq)
qed

text \<open>Scenario A and its mirror image, with an engine that gives node 7.\<close>

theorem checkPreStmt_reports_scaled_size_witness:
  "isFromSizeof (getSVal (ctx True (Some 7)) size_expr) \<and>
   getTypeSizeInChars (getASTContext (ctx True (Some 7))) int_ty = Some 4 \<and>
   checkPreStmt (ptr_plus_size int_ty) (ctx True (Some 7)) =
     Some (emitReport \<lparr>bugType = BT,
       description = ''In pointer arithmetic right argument is calculated from a sizeof or offsetof expression'',
       errorNode = 7\<rparr> (ctx True (Some 7))) \<and>
   checkPreStmt (size_plus_ptr int_ty) (ctx True (Some 7)) =
     Some (emitReport \<lparr>bugType = BT,
       description = ''In pointer arithmetic left argument is calculated from a sizeof or offsetof expression'',
       errorNode = 7\<rparr> (ctx True (Some 7)))"
  using checkPreStmt_reports_scaled_size
      [of "ptr_plus_size int_ty" False size_expr "ptr_expr int_ty" "ctx True (Some 7)" int_ty 4]
    checkPreStmt_reports_scaled_size
      [of "size_plus_ptr int_ty" True size_expr "ptr_expr int_ty" "ctx True (Some 7)" int_ty 4]
  by (simp add: sample_defs query_defs)

subsection \<open>C2: a pointer to a type of size one\<close>

text \<open>
  C2. For an otherwise qualifying operation (additive or compound additive operator, a
  pointer-typed operand and a tagged integer-typed operand) whose pointee is complete,
  not dependent, not a dependently-sized array, of constant size, and of size exactly 1,
  the callback is a no-op: the context, and with it the list of reports, is unchanged.
\<close>

theorem checkPreStmt_size_one_noop:
  assumes "getOpcode BO \<in> {BO_Add, BO_Sub, BO_AddAssign, BO_SubAssign}"
    and "getLHS BO = (if IsLeft then I else P)" "getRHS BO = (if IsLeft then P else I)"
    and "isPointerType (getType P)" "isIntegerType (getType I)"
    and "isFromSizeof (getSVal C I)"
    and "getPointeeType (getType P) = Some PT"
    and "\<not> isIncompleteType PT" "\<not> isDependentType PT" "\<not> isaDependentSizedArrayType PT"
      "isConstantSizeType PT"
    and "getTypeSizeInChars (getASTContext C) PT = Some 1"
  shows "checkPreStmt BO C = Some C"
proof -
  have "isCharPtr (Some (getType P)) C = Some True"
    using assms(4,7-12) by (simp add: isCharPtr_size)
  then show ?thesis
    using assms(1-6) by (simp add: checkPreStmt_candidate)
qed

text \<open>Scenario B: \<^verbatim>\<open>char *p; p + sizeof(int)\<close>, and \<^verbatim>\<open>sizeof(int) + p\<close>.\<close>

theorem checkPreStmt_size_one_noop_witness:
  "isFromSizeof (getSVal (ctx True (Some 7)) size_expr) \<and>
   getTypeSizeInChars (getASTContext (ctx True (Some 7))) char_ty = Some 1 \<and>
   checkPreStmt (ptr_plus_size char_ty) (ctx True (Some 7)) = Some (ctx True (Some 7)) \<and>
   checkPreStmt (size_plus_ptr char_ty) (ctx True (Some 7)) = Some (ctx True (Some 7))"
  using checkPreStmt_size_one_noop
      [of "ptr_plus_size char_ty" False size_expr "ptr_expr char_ty" "ctx True (Some 7)" char_ty]
    checkPreStmt_size_one_noop
      [of "size_plus_ptr char_ty" True size_expr "ptr_expr char_ty" "ctx True (Some 7)" char_ty]
  by (simp add: sample_defs query_defs)

subsection \<open>C3: a pointee whose size is not known\<close>

text \<open>
  C3, as stated, promises a finding whenever the pointee is null, incomplete, dependent,
  a dependently-sized array or not of constant size. It fails where the engine gives no
  error node: for \<^verbatim>\<open>void *p; p -= sizeof(int)\<close> and an engine that declines, the
  callback returns with no report emitted.
\<close>

theorem unknown_size_engine_declines:
  "getOpcode (ptr_minus_assign_size void_ty) = BO_SubAssign \<and>
   isPointerType (getType (getLHS (ptr_minus_assign_size void_ty))) \<and>
   isIntegerType (getType (getRHS (ptr_minus_assign_size void_ty))) \<and>
   isFromSizeof (getSVal (ctx True None) (getRHS (ptr_minus_assign_size void_ty))) \<and>
   getPointeeType (getType (getLHS (ptr_minus_assign_size void_ty))) = Some void_ty \<and>
   isIncompleteType void_ty \<and>
   checkPreStmt (ptr_minus_assign_size void_ty) (ctx True None) = Some (ctx True None) \<and>
   emitted (ctx True None) = []"
  by (simp add: sample_defs checker_defs)

text \<open>
  C3 (amended). For an otherwise qualifying operation whose pointee is null, incomplete,
  dependent, a dependently-sized array or not of constant size: the size-one exclusion
  does not apply (the test answers false, with no layout query and for every AST
  context), the analysis does not fail, and the callback reaches the report step; when
  the engine gives an error node it emits the report naming the side of the integer
  operand, and when the engine declines the context is unchanged.
\<close>

theorem checkPreStmt_reports_unknown_size:
  assumes "getOpcode BO \<in> {BO_Add, BO_Sub, BO_AddAssign, BO_SubAssign}"
    and "getLHS BO = (if IsLeft then I else P)" "getRHS BO = (if IsLeft then P else I)"
    and "isPointerType (getType P)" "isIntegerType (getType I)"
    and "isFromSizeof (getSVal C I)"
    and "getPointeeType (getType P) = None \<or>
     (\<exists>PT. getPointeeType (getType P) = Some PT \<and>
        (isIncompleteType PT \<or> isDependentType PT \<or> isaDependentSizedArrayType PT \<or>
         \<not> isConstantSizeType PT))"
  shows "isCharPtr (Some (getType P)) C = Some False \<and>
    checkPreStmt BO C =
    Some (case generateNonFatalErrorNode C (getState C) of
            None \<Rightarrow> C
          | Some N \<Rightarrow>
              emitReport \<lparr>bugType = BT,
                description = ''In pointer arithmetic '' @ (if IsLeft then ''left'' else ''right'') @
                  '' argument is calculated from a sizeof or offsetof expression'',
                errorNode = N\<rparr> C)"
proof -
  have a: "isCharPtr (Some (getType P)) C = Some False"
    using assms(7) by (rule isCharPtr_unknown)
  then have "checkPreStmt BO C = Some (reportBug IsLeft C)"
    using assms(1-6) by (simp add: checkPreStmt_candidate)
  then show ?thesis
    using a by (simp only: reportBug_eq simp_thms)
qed

text \<open>\<^verbatim>\<open>void *p; p -= sizeof(int)\<close> with an engine that gives node 7.\<close>

theorem checkPreStmt_reports_unknown_size_witness:
  "isIncompleteType void_ty \<and>
   isCharPtr (Some (pointer_to void_ty)) (ctx True (Some 7)) = Some False \<and>
   checkPreStmt (ptr_minus_assign_size void_ty) (ctx True (Some 7)) =
     Some (emitReport \<lparr>bugType = BT,
       description = ''In pointer arithmetic right argument is calculated from a sizeof or offsetof expression'',
       errorNode = 7\<rparr> (ctx True (Some 7)))"
  using checkPreStmt_reports_unknown_size
      [of "ptr_minus_assign_size void_ty" False size_expr "ptr_expr void_ty" "ctx True (Some 7)"]
  by (simp add: sample_defs query_defs)

subsection \<open>C4: the guards of the size-one test\<close>

text \<open>
  C4. The size-one test answers false, whatever the AST context is (also one whose layout
  query is valid for no type at all, so the query is not made and the test cannot fail),
  on a null type, on a type that is not a pointer, on a pointer with a null pointee, and
  on a pointer whose pointee is incomplete, dependent, a dependently-sized array or not
  of constant size. In the one remaining case, where every guard has passed, its answer
  is the layout query on the pointee, compared with 1.
\<close>

theorem isCharPtr_guards:
  "(T = None \<longrightarrow> isCharPtr T C = Some False) \<and>
   (T = Some Ty \<and> \<not> isAnyPointerType Ty \<longrightarrow> isCharPtr T C = Some False) \<and>
   (T = Some Ty \<and> getPointeeType Ty = None \<longrightarrow> isCharPtr T C = Some False) \<and>
   (T = Some Ty \<and> getPointeeType Ty = Some PT \<and>
      (isIncompleteType PT \<or> isDependentType PT \<or> isaDependentSizedArrayType PT \<or>
       \<not> isConstantSizeType PT) \<longrightarrow> isCharPtr T C = Some False) \<and>
   (T = Some Ty \<and> isAnyPointerType Ty \<and> getPointeeType Ty = Some PT \<and>
      \<not> isIncompleteType PT \<and> \<not> isDependentType PT \<and>
      \<not> isaDependentSizedArrayType PT \<and> isConstantSizeType PT \<longrightarrow>
      isCharPtr T C = map_option (\<lambda>q. q = 1) (getTypeSizeInChars (getASTContext C) PT))"
  by (auto simp: isCharPtr_def split: option.splits if_splits)

text \<open>
  The test on a null type, on \<^verbatim>\<open>int\<close>, on \<^verbatim>\<open>void *\<close>, on \<^verbatim>\<open>char *\<close> and on
  \<^verbatim>\<open>int *\<close>; on the first three with an AST context that has no size for any type.
\<close>

theorem isCharPtr_guards_witness:
  "isCharPtr None (ctx True None\<lparr>getASTContext := \<lparr>getTypeSizeInChars = (\<lambda>_. None)\<rparr>\<rparr>)
     = Some False \<and>
   isCharPtr (Some int_ty) (ctx True None\<lparr>getASTContext := \<lparr>getTypeSizeInChars = (\<lambda>_. None)\<rparr>\<rparr>)
     = Some False \<and>
   isCharPtr (Some (pointer_to void_ty))
     (ctx True None\<lparr>getASTContext := \<lparr>getTypeSizeInChars = (\<lambda>_. None)\<rparr>\<rparr>) = Some False \<and>
   isCharPtr (Some (pointer_to char_ty)) (ctx True None) = Some True \<and>
   isCharPtr (Some (pointer_to int_ty)) (ctx True None) = Some False"
  using isCharPtr_guards
      [of None "ctx True None\<lparr>getASTContext := \<lparr>getTypeSizeInChars = (\<lambda>_. None)\<rparr>\<rparr>"]
    isCharPtr_guards
      [of "Some int_ty" "ctx True None\<lparr>getASTContext := \<lparr>getTypeSizeInChars = (\<lambda>_. None)\<rparr>\<rparr>"
        int_ty]
    isCharPtr_guards
      [of "Some (pointer_to void_ty)"
        "ctx True None\<lparr>getASTContext := \<lparr>getTypeSizeInChars = (\<lambda>_. None)\<rparr>\<rparr>"
        "pointer_to void_ty" void_ty]
    isCharPtr_guards
      [of "Some (pointer_to char_ty)" "ctx True None" "pointer_to char_ty" char_ty]
    isCharPtr_guards
      [of "Some (pointer_to int_ty)" "ctx True None" "pointer_to int_ty" int_ty]
  by (simp add: sample_defs query_defs)

subsection \<open>C5: no provenance flag, no finding\<close>

text \<open>
  C5. When no integer-typed operand has a value that carries the provenance flag, the
  callback leaves the context unchanged and emits nothing, whatever the operator, the
  operand types and the pointee are.
\<close>

theorem checkPreStmt_untagged_noop:
  assumes "isIntegerType (getType (getLHS BO)) \<longrightarrow> \<not> isFromSizeof (getSVal C (getLHS BO))"
    and "isIntegerType (getType (getRHS BO)) \<longrightarrow> \<not> isFromSizeof (getSVal C (getRHS BO))"
  shows "checkPreStmt BO C = Some C"
  using assms by (simp add: checkPreStmt_def Let_def)

text \<open>Scenario E: \<^verbatim>\<open>int *p; p + n\<close> with an untagged \<^verbatim>\<open>n\<close>, on either side.\<close>

theorem checkPreStmt_untagged_noop_witness:
  "\<not> isFromSizeof (getSVal (ctx False (Some 7)) size_expr) \<and>
   checkPreStmt (ptr_plus_size int_ty) (ctx False (Some 7)) = Some (ctx False (Some 7)) \<and>
   checkPreStmt (size_plus_ptr int_ty) (ctx False (Some 7)) = Some (ctx False (Some 7))"
  using checkPreStmt_untagged_noop [of "ptr_plus_size int_ty" "ctx False (Some 7)"]
    checkPreStmt_untagged_noop [of "size_plus_ptr int_ty" "ctx False (Some 7)"]
  by (simp add: sample_defs query_defs)

subsection \<open>C6: operators that are not additive\<close>

text \<open>
  C6. An operator that is none of \<open>+\<close>, \<open>-\<close>, \<open>+=\<close>, \<open>-=\<close> leaves the context as it
  was: no report is emitted and nothing else changes, whatever the operand types and the
  provenance of the operand values are.
\<close>

theorem checkPreStmt_other_operator_noop:
  assumes "getOpcode BO \<notin> {BO_Add, BO_Sub, BO_AddAssign, BO_SubAssign}"
  shows "checkPreStmt BO C = Some C"
  using assms by (simp add: checkPreStmt_def isAdditiveOp_def)

text \<open>\<^verbatim>\<open>int *p; p * sizeof(int)\<close> as a syntax node, the value of the size tagged.\<close>

theorem checkPreStmt_other_operator_noop_witness:
  "getOpcode \<lparr>getOpcode = BO_Mul, getLHS = ptr_expr int_ty, getRHS = size_expr\<rparr>
     \<notin> {BO_Add, BO_Sub, BO_AddAssign, BO_SubAssign} \<and>
   checkPreStmt \<lparr>getOpcode = BO_Mul, getLHS = ptr_expr int_ty, getRHS = size_expr\<rparr>
     (ctx True (Some 7)) = Some (ctx True (Some 7))"
  using checkPreStmt_other_operator_noop
    [of "\<lparr>getOpcode = BO_Mul, getLHS = ptr_expr int_ty, getRHS = size_expr\<rparr>" "ctx True (Some 7)"]
  by simp

subsection \<open>C7: the contents of a report\<close>

text \<open>
  C7. Whenever the callback returns, the reports it has added to those emitted before all
  carry the one bug type \<open>BT\<close>, built from the strings "Badly scaled pointer arithmetic"
  and "Suspicious operation", and a message that is literally one of the two texts with
  "left" or "right"; the message says "left" exactly when the left operand is the
  integer-typed one, and "right" exactly when the right operand is.
\<close>

theorem checkPreStmt_report_contents:
  assumes "checkPreStmt BO C = Some C'"
  shows "BT = BugType ''Badly scaled pointer arithmetic'' ''Suspicious operation'' \<and>
    (\<exists>rs. emitted C' = emitted C @ rs \<and>
      (\<forall>r \<in> set rs. bugType r = BT \<and>
         (description r = ''In pointer arithmetic left argument is calculated from a sizeof or offsetof expression'' \<or>
          description r = ''In pointer arithmetic right argument is calculated from a sizeof or offsetof expression'') \<and>
         ((description r = ''In pointer arithmetic left argument is calculated from a sizeof or offsetof expression'')
            = isIntegerType (getType (getLHS BO))) \<and>
         ((description r = ''In pointer arithmetic right argument is calculated from a sizeof or offsetof expression'')
            = isIntegerType (getType (getRHS BO)))))"
proof -
  from checkPreStmt_cases [OF assms] consider
      (same) "C' = C"
    | (right) "isPointerType (getType (getLHS BO))" "isIntegerType (getType (getRHS BO))"
        "C' = reportBug False C"
    | (left) "isIntegerType (getType (getLHS BO))" "isPointerType (getType (getRHS BO))"
        "C' = reportBug True C"
    by blast
  then have "\<exists>rs. emitted C' = emitted C @ rs \<and>
      (\<forall>r \<in> set rs. bugType r = BT \<and>
         (description r = ''In pointer arithmetic left argument is calculated from a sizeof or offsetof expression'' \<or>
          description r = ''In pointer arithmetic right argument is calculated from a sizeof or offsetof expression'') \<and>
         ((description r = ''In pointer arithmetic left argument is calculated from a sizeof or offsetof expression'')
            = isIntegerType (getType (getLHS BO))) \<and>
         ((description r = ''In pointer arithmetic right argument is calculated from a sizeof or offsetof expression'')
            = isIntegerType (getType (getRHS BO))))"
  proof cases
    case same
    then show ?thesis by simp
  next
    case right
    from emitted_reportBug [of False C] obtain rs where
      "emitted (reportBug False C) = emitted C @ rs"
      "\<forall>r \<in> set rs. bugType r = BT \<and>
        description r = ''In pointer arithmetic right argument is calculated from a sizeof or offsetof expression''"
      by auto
    with right pointer_not_integer [OF right(1)] show ?thesis
      by (intro exI [of _ rs]) simp
  next
    case left
    from emitted_reportBug [of True C] obtain rs where
      "emitted (reportBug True C) = emitted C @ rs"
      "\<forall>r \<in> set rs. bugType r = BT \<and>
        description r = ''In pointer arithmetic left argument is calculated from a sizeof or offsetof expression''"
      by auto
    with left pointer_not_integer [OF left(2)] show ?thesis
      by (intro exI [of _ rs]) simp
  qed
  then show ?thesis by (simp add: BT_def)
qed

text \<open>The report of scenario A.\<close>

theorem checkPreStmt_report_contents_witness:
  "checkPreStmt (ptr_plus_size int_ty) (ctx True (Some 7)) =
     Some (reportBug False (ctx True (Some 7))) \<and>
   map bugType (emitted (reportBug False (ctx True (Some 7)))) =
     [BugType ''Badly scaled pointer arithmetic'' ''Suspicious operation''] \<and>
   map description (emitted (reportBug False (ctx True (Some 7)))) =
     [''In pointer arithmetic right argument is calculated from a sizeof or offsetof expression'']"
  using checkPreStmt_report_contents
    [of "ptr_plus_size int_ty" "ctx True (Some 7)" "reportBug False (ctx True (Some 7))"]
  by (simp add: sample_defs checker_defs del: formatv.simps)

subsection \<open>C8: the engine declines\<close>

text \<open>
  C8. In the report step, when the engine gives no error node for the current state the
  context is returned as it was: no report is built or emitted. When it gives a node
  \<open>N\<close>, exactly one report is added, attached to \<open>N\<close>. So the list of reports changes
  if and only if the engine gives a node. For the callback as a whole: with an engine that
  declines, no invocation emits anything.
\<close>

theorem reportBug_iff_error_node:
  "(generateNonFatalErrorNode C (getState C) = None \<longrightarrow> reportBug IsLeft C = C) \<and>
   (\<forall>N. generateNonFatalErrorNode C (getState C) = Some N \<longrightarrow>
      emitted (reportBug IsLeft C) = emitted C @
        [\<lparr>bugType = BT,
          description = ''In pointer arithmetic '' @ (if IsLeft then ''left'' else ''right'') @
            '' argument is calculated from a sizeof or offsetof expression'',
          errorNode = N\<rparr>]) \<and>
   ((emitted (reportBug IsLeft C) \<noteq> emitted C) =
      (generateNonFatalErrorNode C (getState C) \<noteq> None)) \<and>
   (generateNonFatalErrorNode C (getState C) = None \<longrightarrow>
      checkPreStmt BO C = Some C \<or> checkPreStmt BO C = None)"
proof (cases "generateNonFatalErrorNode C (getState C)")
  case None
  then have r: "\<And>b. reportBug b C = C" by (simp add: reportBug_None)
  have "checkPreStmt BO C = Some C \<or> checkPreStmt BO C = None"
    by (simp add: checkPreStmt_def Let_def r split: option.splits)
  with None r show ?thesis by simp
next
  case (Some N)
  then show ?thesis by (simp add: reportBug_Some emitReport_def)
qed

text \<open>The report step with an engine that declines, and with one that gives node 7.\<close>

theorem reportBug_iff_error_node_witness:
  "reportBug False (ctx True None) = ctx True None \<and>
   emitted (reportBug True (ctx True (Some 7))) =
     [\<lparr>bugType = BT,
       description = ''In pointer arithmetic left argument is calculated from a sizeof or offsetof expression'',
       errorNode = 7\<rparr>] \<and>
   emitted (reportBug True (ctx True (Some 7))) \<noteq> emitted (ctx True (Some 7))"
proof -
  have none: "generateNonFatalErrorNode (ctx True None) (getState (ctx True None)) = None"
    by (simp add: ctx_def)
  have some: "generateNonFatalErrorNode (ctx True (Some 7)) (getState (ctx True (Some 7))) = Some 7"
    by (simp add: ctx_def)
  have no_reports: "emitted (ctx True (Some 7)) = []"
    by (simp add: ctx_def)
  from reportBug_iff_error_node [of "ctx True None" False "ptr_plus_size int_ty"] none
  have a: "reportBug False (ctx True None) = ctx True None"
    by blast
  from reportBug_iff_error_node [of "ctx True (Some 7)" True "ptr_plus_size int_ty"] some
  have b: "emitted (reportBug True (ctx True (Some 7))) = emitted (ctx True (Some 7)) @
     [\<lparr>bugType = BT,
       description = ''In pointer arithmetic '' @ (if True then ''left'' else ''right'') @
         '' argument is calculated from a sizeof or offsetof expression'',
       errorNode = 7\<rparr>]"
    by blast
  from a b no_reports show ?thesis
    by simp
qed

subsection \<open>C9: the value of the pointer operand is never read\<close>

text \<open>
  C9, as stated, promises the same finding or absence of a finding for two invocations
  that differ only in the provenance flag of the pointer operand's value. The flag is part
  of the path state, and the engine is asked for an error node on that state: for
  \<^verbatim>\<open>int *p; p + sizeof(int)\<close> and an engine that gives a node in the state where the
  value of \<^verbatim>\<open>p\<close> is untagged and declines in the state where it is tagged, the first
  invocation emits a report and the second emits none.
\<close>

theorem pointer_value_engine_reads_state:
  "isPointerType (getType (getLHS (ptr_plus_size int_ty))) \<and>
   isIntegerType (getType (getRHS (ptr_plus_size int_ty))) \<and>
   \<not> isFromSizeof (getSVal visited_ctx (getLHS (ptr_plus_size int_ty))) \<and>
   isFromSizeof (getSVal (tag_value (getLHS (ptr_plus_size int_ty)) visited_ctx)
     (getLHS (ptr_plus_size int_ty))) \<and>
   getSVal (tag_value (getLHS (ptr_plus_size int_ty)) visited_ctx) (getRHS (ptr_plus_size int_ty)) =
     getSVal visited_ctx (getRHS (ptr_plus_size int_ty)) \<and>
   map_option emitted (checkPreStmt (ptr_plus_size int_ty) visited_ctx) =
     Some [\<lparr>bugType = BT,
       description = ''In pointer arithmetic right argument is calculated from a sizeof or offsetof expression'',
       errorNode = 7\<rparr>] \<and>
   map_option emitted
     (checkPreStmt (ptr_plus_size int_ty) (tag_value (getLHS (ptr_plus_size int_ty)) visited_ctx)) =
     Some []"
  by (simp add: sample_defs checker_defs tag_value_def visited_ctx_def Let_def)

text \<open>
  C9 (amended). Take two invocations on the same node whose contexts differ only in the
  symbolic value bound to a pointer-typed expression \<open>P\<close> (in particular, only in its
  provenance flag). The rule decides alike in both: both fail, or both return with the
  context untouched, or both go through the report step with the same side label. When
  moreover the engine gives an error node in both states or declines in both, the reports
  emitted have the same bug types and the same messages.
\<close>

theorem checkPreStmt_ignores_pointer_value:
  assumes "isPointerType (getType P)"
    and "C' = C\<lparr>getState := (getState C)\<lparr>Env := (Env (getState C))(P := v)\<rparr>\<rparr>"
  shows "((checkPreStmt BO C' = None \<and> checkPreStmt BO C = None) \<or>
          (checkPreStmt BO C' = Some C' \<and> checkPreStmt BO C = Some C) \<or>
          (\<exists>IsLeft. checkPreStmt BO C' = Some (reportBug IsLeft C') \<and>
                     checkPreStmt BO C = Some (reportBug IsLeft C))) \<and>
    ((generateNonFatalErrorNode C (getState C') = None) =
       (generateNonFatalErrorNode C (getState C) = None) \<longrightarrow>
     map_option (\<lambda>D. map (\<lambda>r. (bugType r, description r)) (emitted D)) (checkPreStmt BO C') =
     map_option (\<lambda>D. map (\<lambda>r. (bugType r, description r)) (emitted D)) (checkPreStmt BO C))"
proof -
  let ?s = "(getState C)\<lparr>Env := (Env (getState C))(P := v)\<rparr>"
  have sval: "getSVal C' E = getSVal C E" if "isIntegerType (getType E)" for E
  proof -
    from that assms(1) have "E \<noteq> P"
      by (auto simp: isPointerType_def isIntegerType_def)
    then show ?thesis by (simp add: assms(2) getSVal_def)
  qed
  have char: "isCharPtr T C' = isCharPtr T C" for T
    by (simp add: assms(2) isCharPtr_state_update)
  have decision: "(checkPreStmt BO C' = None \<and> checkPreStmt BO C = None) \<or>
          (checkPreStmt BO C' = Some C' \<and> checkPreStmt BO C = Some C) \<or>
          (\<exists>IsLeft. checkPreStmt BO C' = Some (reportBug IsLeft C') \<and>
                     checkPreStmt BO C = Some (reportBug IsLeft C))"
    by (auto simp: checkPreStmt_def Let_def sval char split: option.splits)
  have messages:
    "map_option (\<lambda>D. map (\<lambda>r. (bugType r, description r)) (emitted D)) (checkPreStmt BO C') =
     map_option (\<lambda>D. map (\<lambda>r. (bugType r, description r)) (emitted D)) (checkPreStmt BO C)"
    if eng: "(generateNonFatalErrorNode C (getState C') = None) =
             (generateNonFatalErrorNode C (getState C) = None)"
  proof -
    have eng': "(generateNonFatalErrorNode C ?s = None) =
                (generateNonFatalErrorNode C (getState C) = None)"
      using eng by (simp add: assms(2))
    have rep: "map (\<lambda>r. (bugType r, description r)) (emitted (reportBug b C')) =
               map (\<lambda>r. (bugType r, description r)) (emitted (reportBug b C))" for b
      unfolding assms(2) using eng' by (rule reportBug_state_update)
    have same: "map (\<lambda>r. (bugType r, description r)) (emitted C') =
                map (\<lambda>r. (bugType r, description r)) (emitted C)"
      by (simp add: assms(2))
    show ?thesis
      by (simp add: checkPreStmt_def Let_def sval char rep same split: option.splits)
  qed
  from decision messages show ?thesis by blast
qed

text \<open>
  Scenario A, and scenario A with the value of \<^verbatim>\<open>p\<close> tagged as well, with an engine
  that gives node 7 in every state: the same report.
\<close>

theorem checkPreStmt_ignores_pointer_value_witness:
  "\<not> isFromSizeof (getSVal (ctx True (Some 7)) (ptr_expr int_ty)) \<and>
   isFromSizeof (getSVal (tag_value (ptr_expr int_ty) (ctx True (Some 7))) (ptr_expr int_ty)) \<and>
   map_option (\<lambda>D. map (\<lambda>r. (bugType r, description r)) (emitted D))
     (checkPreStmt (ptr_plus_size int_ty) (tag_value (ptr_expr int_ty) (ctx True (Some 7)))) =
   map_option (\<lambda>D. map (\<lambda>r. (bugType r, description r)) (emitted D))
     (checkPreStmt (ptr_plus_size int_ty) (ctx True (Some 7)))"
proof -
  have p: "isPointerType (getType (ptr_expr int_ty))"
    by (simp add: sample_defs query_defs)
  have c: "tag_value (ptr_expr int_ty) (ctx True (Some 7)) =
      ctx True (Some 7)\<lparr>getState := (getState (ctx True (Some 7)))
        \<lparr>Env := (Env (getState (ctx True (Some 7))))
          (ptr_expr int_ty :=
             (Env (getState (ctx True (Some 7))) (ptr_expr int_ty))\<lparr>isFromSizeof := True\<rparr>)\<rparr>\<rparr>"
    by (simp add: tag_value_def)
  have e: "(generateNonFatalErrorNode (ctx True (Some 7))
        (getState (tag_value (ptr_expr int_ty) (ctx True (Some 7)))) = None) =
      (generateNonFatalErrorNode (ctx True (Some 7)) (getState (ctx True (Some 7))) = None)"
    by (simp add: ctx_def)
  have f: "\<not> isFromSizeof (getSVal (ctx True (Some 7)) (ptr_expr int_ty))"
    by (simp add: sample_defs query_defs)
  have g: "isFromSizeof (getSVal (tag_value (ptr_expr int_ty) (ctx True (Some 7))) (ptr_expr int_ty))"
    by (simp add: getSVal_def tag_value_def)
  from checkPreStmt_ignores_pointer_value [OF p c, of "ptr_plus_size int_ty"] e
  have "map_option (\<lambda>D. map (\<lambda>r. (bugType r, description r)) (emitted D))
     (checkPreStmt (ptr_plus_size int_ty) (tag_value (ptr_expr int_ty) (ctx True (Some 7)))) =
   map_option (\<lambda>D. map (\<lambda>r. (bugType r, description r)) (emitted D))
     (checkPreStmt (ptr_plus_size int_ty) (ctx True (Some 7)))"
    by blast
  with f g show ?thesis by blast
qed

subsection \<open>C10: a pointee of size zero\<close>

text \<open>
  C10, as stated, promises a finding for every otherwise qualifying operation whose
  pointee has size 0. It fails where the engine gives no error node: for
  \<^verbatim>\<open>struct E {} *p; sizeof(int) + p\<close>, with the structure of size 0 and an engine that
  declines, the callback returns with no report emitted.
\<close>

theorem size_zero_engine_declines:
  "getOpcode (size_plus_ptr empty_ty) = BO_Add \<and>
   isIntegerType (getType (getLHS (size_plus_ptr empty_ty))) \<and>
   isPointerType (getType (getRHS (size_plus_ptr empty_ty))) \<and>
   isFromSizeof (getSVal (ctx True None) (getLHS (size_plus_ptr empty_ty))) \<and>
   getPointeeType (getType (getRHS (size_plus_ptr empty_ty))) = Some empty_ty \<and>
   \<not> isIncompleteType empty_ty \<and> \<not> isDependentType empty_ty \<and>
   \<not> isaDependentSizedArrayType empty_ty \<and> isConstantSizeType empty_ty \<and>
   getTypeSizeInChars (getASTContext (ctx True None)) empty_ty = Some 0 \<and>
   checkPreStmt (size_plus_ptr empty_ty) (ctx True None) = Some (ctx True None) \<and>
   emitted (ctx True None) = []"
  by (simp add: sample_defs checker_defs)

text \<open>
  C10 (amended). For an otherwise qualifying operation whose pointee passes every guard
  and has size 0, the size-one test answers false: the exclusion is for size exactly 1,
  not for sizes up to 1. The callback reaches the report step; when the engine gives an
  error node it emits the report naming the side of the integer operand, and when the
  engine declines the context is unchanged.
\<close>

theorem checkPreStmt_reports_size_zero:
  assumes "getOpcode BO \<in> {BO_Add, BO_Sub, BO_AddAssign, BO_SubAssign}"
    and "getLHS BO = (if IsLeft then I else P)" "getRHS BO = (if IsLeft then P else I)"
    and "isPointerType (getType P)" "isIntegerType (getType I)"
    and "isFromSizeof (getSVal C I)"
    and "getPointeeType (getType P) = Some PT"
    and "\<not> isIncompleteType PT" "\<not> isDependentType PT" "\<not> isaDependentSizedArrayType PT"
      "isConstantSizeType PT"
    and "getTypeSizeInChars (getASTContext C) PT = Some 0"
  shows "isCharPtr (Some (getType P)) C = Some False \<and>
    checkPreStmt BO C =
    Some (case generateNonFatalErrorNode C (getState C) of
            None \<Rightarrow> C
          | Some N \<Rightarrow>
              emitReport \<lparr>bugType = BT,
                description = ''In pointer arithmetic '' @ (if IsLeft then ''left'' else ''right'') @
                  '' argument is calculated from a sizeof or offsetof expression'',
                errorNode = N\<rparr> C)"
proof -
  have a: "isCharPtr (Some (getType P)) C = Some False"
    using assms(4,7,12) by (simp add: isCharPtr_size)
  then have "checkPreStmt BO C = Some (reportBug IsLeft C)"
    using assms(1-6) by (simp add: checkPreStmt_candidate)
  then show ?thesis
    using a by (simp only: reportBug_eq simp_thms)
qed

text \<open>\<^verbatim>\<open>struct E {} *p; sizeof(int) + p\<close> with an engine that gives node 7.\<close>

theorem checkPreStmt_reports_size_zero_witness:
  "getTypeSizeInChars (getASTContext (ctx True (Some 7))) empty_ty = Some 0 \<and>
   isCharPtr (Some (pointer_to empty_ty)) (ctx True (Some 7)) = Some False \<and>
   checkPreStmt (size_plus_ptr empty_ty) (ctx True (Some 7)) =
     Some (emitReport \<lparr>bugType = BT,
       description = ''In pointer arithmetic left argument is calculated from a sizeof or offsetof expression'',
       errorNode = 7\<rparr> (ctx True (Some 7)))"
  using checkPreStmt_reports_size_zero
      [of "size_plus_ptr empty_ty" True size_expr "ptr_expr empty_ty" "ctx True (Some 7)" empty_ty]
  by (simp add: sample_defs query_defs)

end
